theory Spec2Isabelle
  imports Main "HOL-Library.Word"
begin

unbundle bit_operations_syntax

section \<open>XAX: sector parser and extraction driver of \<^verbatim>\<open>xax.py\<close>\<close>

subsection \<open>Bytes, exceptions and the Python primitives the code uses\<close>

text \<open>
  A Python \<^verbatim>\<open>bytes\<close> object is a list of 8-bit words. Indexing it yields a
  Python integer (modelled as \<^typ>\<open>int\<close>) and raises \<^verbatim>\<open>IndexError\<close> out of range;
  slicing with non-negative bounds never raises and clips at the end.
\<close>

type_synonym byte = "8 word"
type_synonym bytes = "byte list"

text \<open>
  The exceptions the code can raise. The three \<^verbatim>\<open>ValueError\<close>s of
  \<^verbatim>\<open>Sector.__init__\<close> are told apart by their raise site:
  \<open>BadLength\<close> is "Sector length is ..., expected 2352.", \<open>BadSync\<close> is
  "Sector does not begin with the sync value." and \<open>UnknownMode\<close> is
  "Unrecognised sector mode ...". \<open>IndexError\<close> is an index out of range,
  \<open>TypeError\<close> is a format specification applied to \<^verbatim>\<open>None\<close>, and
  \<open>UnboundLocalError\<close> is a read of a local variable that was never assigned.
\<close>

datatype error = BadLength | BadSync | UnknownMode | IndexError | TypeError | UnboundLocalError

definition bind_e :: "error + 'a \<Rightarrow> ('a \<Rightarrow> error + 'b) \<Rightarrow> error + 'b" where
  "bind_e r f = (case r of Inl e \<Rightarrow> Inl e | Inr v \<Rightarrow> f v)"

definition index :: "bytes \<Rightarrow> nat \<Rightarrow> error + int" where
  "index xs i = (if i < length xs then Inr (uint (xs ! i)) else Inl IndexError)"

definition slice :: "nat \<Rightarrow> nat \<Rightarrow> 'a list \<Rightarrow> 'a list" where
  "slice a b xs = drop a (take b xs)"

definition slice_from :: "nat \<Rightarrow> 'a list \<Rightarrow> 'a list" where
  "slice_from a xs = drop a xs"

definition startswith :: "bytes \<Rightarrow> bytes \<Rightarrow> bool" where
  "startswith xs p = (take (length p) xs = p)"

definition truthy :: "int \<Rightarrow> bool" where
  "truthy x = (x \<noteq> 0)"

subsection \<open>Constants and BCD decoding\<close>

definition SECTOR_SIZE :: nat where
  "SECTOR_SIZE = 2352"

definition SYNC :: bytes where
  "SYNC = [0x00, 0xff, 0xff, 0xff, 0xff, 0xff, 0xff, 0xff, 0xff, 0xff, 0xff, 0x00]"

definition bcd_to_int :: "int \<Rightarrow> int" where
  "bcd_to_int byte = (byte AND 15) + (drop_bit 4 byte) * 10"

subsection \<open>The sector object\<close>

text \<open>
  The attributes of a \<^verbatim>\<open>Sector\<close>. An attribute that the constructor may leave
  at \<^verbatim>\<open>None\<close> is an option.
\<close>

record Sector =
  minute :: int
  second :: int
  sector :: int
  mode :: int
  checksum :: "bytes option"
  ecc :: "bytes option"
  "file" :: "int option"
  channel :: "int option"
  submode :: "int option"
  codinginfo :: "int option"
  eor :: "bool option"
  type_video :: "bool option"
  type_audio :: "bool option"
  type_data :: "bool option"
  trigger :: "bool option"
  form :: "int option"
  realtime :: "bool option"
  eof :: "bool option"
  data_size :: int
  data :: bytes

text \<open>
  The state of the object after lines 42 to 61 of the constructor: address and mode
  read, every other attribute \<^verbatim>\<open>None\<close>. The payload attributes
  \<^verbatim>\<open>data_size\<close> and \<^verbatim>\<open>data\<close> do not exist yet at that point; each branch
  that returns assigns them, so they are arguments here.
\<close>

definition fresh :: "int \<Rightarrow> int \<Rightarrow> int \<Rightarrow> int \<Rightarrow> int \<Rightarrow> bytes \<Rightarrow> Sector" where
  "fresh mi se sc mo dsz dat =
     \<lparr> minute = mi, second = se, sector = sc, mode = mo,
       checksum = None, ecc = None,
       file = None, channel = None, submode = None, codinginfo = None,
       eor = None, type_video = None, type_audio = None, type_data = None,
       trigger = None, form = None, realtime = None, eof = None,
       data_size = dsz, data = dat \<rparr>"

text \<open>The mode-2 branch of the constructor (lines 75 to 99).\<close>

definition init_mode2 :: "bytes \<Rightarrow> int \<Rightarrow> int \<Rightarrow> int \<Rightarrow> int \<Rightarrow> error + Sector" where
  "init_mode2 d mi se sc mo =
     (let subhead = slice 16 20 d in
      bind_e (index subhead 0) (\<lambda>b0.
      bind_e (index subhead 1) (\<lambda>b1.
      bind_e (index subhead 2) (\<lambda>sm.
        let s1 = (if truthy (sm AND 32)
                  then (fresh mi se sc mo 2324 (slice 24 2348 d))
                         \<lparr> form := Some 2, checksum := Some (slice_from 2348 d) \<rparr>
                  else (fresh mi se sc mo 2048 (slice 24 2072 d))
                         \<lparr> form := Some 1, checksum := Some (slice 2072 2076 d),
                           ecc := Some (slice_from 2076 d) \<rparr>);
            s2 = s1 \<lparr> file := Some b0, channel := Some (b1 AND 31), submode := Some sm,
                      eor := Some (truthy (sm AND 1)),
                      type_video := Some (truthy (sm AND 2)),
                      type_audio := Some (truthy (sm AND 4)),
                      type_data := Some (truthy (sm AND 8)),
                      trigger := Some (truthy (sm AND 16)),
                      realtime := Some (truthy (sm AND 64)),
                      eof := Some (truthy (sm AND 128)) \<rparr>
        in bind_e (index subhead 3) (\<lambda>b3. Inr (s2 \<lparr> codinginfo := Some b3 \<rparr>))))))"

text \<open>\<^verbatim>\<open>Sector.__init__\<close>: the object, or the exception raised.\<close>

definition Sector_init :: "bytes \<Rightarrow> error + Sector" where
  "Sector_init d =
     (if length d \<noteq> SECTOR_SIZE then Inl BadLength
      else if \<not> startswith d SYNC then Inl BadSync
      else
        bind_e (index d 12) (\<lambda>b12.
        bind_e (index d 13) (\<lambda>b13.
        bind_e (index d 14) (\<lambda>b14.
        bind_e (index d 15) (\<lambda>mo.
          let mi = bcd_to_int b12; se = bcd_to_int b13; sc = bcd_to_int b14 in
          if mo = 0 then Inr (fresh mi se sc mo 0 [])
          else if mo = 1 then
            Inr ((fresh mi se sc mo 2048 (slice 16 2064 d))
                   \<lparr> checksum := Some (slice 2064 2068 d), ecc := Some (slice_from 2076 d) \<rparr>)
          else if mo = 2 then init_mode2 d mi se sc mo
          else Inl UnknownMode)))))"

text \<open>The property \<^verbatim>\<open>Sector.is_filler\<close>.\<close>

definition is_filler :: "Sector \<Rightarrow> bool" where
  "is_filler s =
     (if mode s = 0 then True
      else if mode s = 2 \<and> form s = Some 2 \<and> submode s = Some 32 then True
      else False)"

subsection \<open>Formatting and paths\<close>

text \<open>
  Python's format specifications \<^verbatim>\<open>02d\<close>, \<^verbatim>\<open>6d\<close> and \<^verbatim>\<open>02x\<close> on integers:
  the digits of the absolute value, a minus sign for a negative number, zero padding
  between sign and digits, space padding on the left. Applied to \<^verbatim>\<open>None\<close>
  a format specification raises \<^verbatim>\<open>TypeError\<close>.
\<close>

definition digit_char :: "nat \<Rightarrow> char" where
  "digit_char k = ''0123456789abcdef'' ! k"

fun dec_digits :: "nat \<Rightarrow> string" where
  "dec_digits k = (if k < 10 then [digit_char k] else dec_digits (k div 10) @ [digit_char (k mod 10)])"

fun hex_digits :: "nat \<Rightarrow> string" where
  "hex_digits k = (if k < 16 then [digit_char k] else hex_digits (k div 16) @ [digit_char (k mod 16)])"

definition zero_pad :: "nat \<Rightarrow> bool \<Rightarrow> string \<Rightarrow> string" where
  "zero_pad w neg ds =
     (if neg then CHR ''-'' # replicate (w - 1 - length ds) (CHR ''0'') @ ds
      else replicate (w - length ds) (CHR ''0'') @ ds)"

definition space_pad :: "nat \<Rightarrow> bool \<Rightarrow> string \<Rightarrow> string" where
  "space_pad w neg ds =
     (let s = (if neg then ''-'' else []) @ ds in replicate (w - length s) (CHR '' '') @ s)"

definition format_0d :: "nat \<Rightarrow> int \<Rightarrow> string" where
  "format_0d w x = zero_pad w (x < 0) (dec_digits (nat \<bar>x\<bar>))"

definition format_d :: "nat \<Rightarrow> int \<Rightarrow> string" where
  "format_d w x = space_pad w (x < 0) (dec_digits (nat \<bar>x\<bar>))"

definition format_0x :: "nat \<Rightarrow> int \<Rightarrow> string" where
  "format_0x w x = zero_pad w (x < 0) (hex_digits (nat \<bar>x\<bar>))"

definition format_opt :: "(int \<Rightarrow> string) \<Rightarrow> int option \<Rightarrow> error + string" where
  "format_opt f v = (case v of None \<Rightarrow> Inl TypeError | Some x \<Rightarrow> Inr (f x))"

text \<open>\<^verbatim>\<open>os.path.join\<close> on POSIX, as the loop of \<^verbatim>\<open>posixpath.join\<close>.\<close>

fun os_path_join :: "string \<Rightarrow> string list \<Rightarrow> string" where
  "os_path_join a [] = a"
| "os_path_join a (b # ps) =
     os_path_join
       (if take 1 b = ''/'' then b
        else if a = [] \<or> last a = CHR ''/'' then a @ b
        else a @ ''/'' @ b) ps"

text \<open>\<^verbatim>\<open>'/'.join(types)\<close>.\<close>

fun str_join :: "string \<Rightarrow> string list \<Rightarrow> string" where
  "str_join sep [] = []"
| "str_join sep [x] = x"
| "str_join sep (x # y # ys) = x @ sep @ str_join sep (y # ys)"

text \<open>The truth value of an attribute that holds \<^verbatim>\<open>None\<close> or a \<^verbatim>\<open>bool\<close>.\<close>

definition truthy_opt :: "bool option \<Rightarrow> bool" where
  "truthy_opt v = (case v of None \<Rightarrow> False | Some b \<Rightarrow> b)"

text \<open>
  \<^verbatim>\<open>Sector.__str__\<close>. For a mode outside 0, 1, 2 the local \<^verbatim>\<open>mode\<close> is never
  assigned and the last line raises \<^verbatim>\<open>UnboundLocalError\<close>.
\<close>

definition Sector_str :: "Sector \<Rightarrow> error + string" where
  "Sector_str s =
     (let addr = format_0d 2 (minute s) @ '':'' @ format_0d 2 (second s) @ '':''
                   @ format_0d 2 (sector s) in
      bind_e
        (if mode s = 0 then Inr ''Empty''
         else if mode s = 1 then Inr ''Mode1''
         else if mode s = 2 then
           (case form s of
              None \<Rightarrow> Inr ''Mode2''
            | Some fo \<Rightarrow>
                let types = (if truthy_opt (type_video s) then [''Video''] else [])
                          @ (if truthy_opt (type_audio s) then [''Audio''] else [])
                          @ (if truthy_opt (type_data s) then [''Data''] else []);
                    typelabel = (if types \<noteq> [] then str_join ''/'' types else ''None'')
                in bind_e (format_opt (format_0x 2) (file s)) (\<lambda>fh.
                   bind_e (format_opt (format_0x 2) (channel s)) (\<lambda>ch.
                     Inr (''Mode2'' @ ''/Form'' @ format_d 0 fo @ '' '' @ typelabel
                            @ '' F'' @ fh @ '' C'' @ ch))))
         else Inl UnboundLocalError)
        (\<lambda>m. Inr (addr @ '' '' @ m @ '' ['' @ format_d 0 (data_size s) @ '']'')))"

subsection \<open>The extraction driver\<close>

text \<open>
  What the driver acts on: \<open>dirs\<close>, the paths that \<^verbatim>\<open>os.makedirs\<close> has been
  asked to create; \<open>files\<close>, the contents of the files written; \<open>stdout\<close>, the
  lines printed. The file system is taken to accept every request: an \<^verbatim>\<open>OSError\<close>
  of the operating system is outside the model. The input is the finite byte string that
  \<^verbatim>\<open>infile\<close> still holds; \<^verbatim>\<open>infile.read(k)\<close> returns its first \<open>k\<close> bytes, fewer
  only at the end.
\<close>

record world =
  dirs :: "string set"
  files :: "string \<Rightarrow> bytes option"
  stdout :: "string list"

definition makedirs :: "string \<Rightarrow> world \<Rightarrow> world" where
  "makedirs p w = w \<lparr> dirs := insert p (dirs w) \<rparr>"

definition append_file :: "string \<Rightarrow> bytes \<Rightarrow> world \<Rightarrow> world" where
  "append_file p bs w =
     w \<lparr> files := (files w)(p \<mapsto> (case files w p of None \<Rightarrow> [] | Some old \<Rightarrow> old) @ bs) \<rparr>"

definition print_line :: "string \<Rightarrow> world \<Rightarrow> world" where
  "print_line l w = w \<lparr> stdout := stdout w @ [l] \<rparr>"

text \<open>Lines 151 to 157 of \<^verbatim>\<open>main\<close>: the type name of a sector.\<close>

definition typename :: "Sector \<Rightarrow> string" where
  "typename s =
     (if truthy_opt (type_video s) then ''video''
      else if truthy_opt (type_audio s) then ''audio''
      else if truthy_opt (type_data s) then ''data''
      else ''untyped'')"

text \<open>
  Lines 148 to 167 of \<^verbatim>\<open>main\<close>: what the loop does with sector number \<open>k\<close> once
  it is parsed. The result is the exception raised, if any, and the world as it is then.
\<close>

definition main_body :: "string \<Rightarrow> bool \<Rightarrow> int \<Rightarrow> Sector \<Rightarrow> world \<Rightarrow> error option \<times> world" where
  "main_body target_dir verbose k s w =
     (case (if verbose
            then bind_e (Sector_str s) (\<lambda>l. Inr (print_line (format_d 6 k @ '' '' @ l) w))
            else Inr w) of
        Inl e \<Rightarrow> (Some e, w)
      | Inr w1 \<Rightarrow>
         (case format_opt (format_0x 2) (file s) of
            Inl e \<Rightarrow> (Some e, w1)
          | Inr fh \<Rightarrow>
             let dirname = os_path_join target_dir [typename s, fh] in
             (case format_opt (format_0x 2) (channel s) of
                Inl e \<Rightarrow> (Some e, w1)
              | Inr ch \<Rightarrow>
                 let w2 = makedirs dirname w1;
                     path = os_path_join dirname [ch]
                 in (None, append_file path (data s) w2))))"

text \<open>
  The loop of \<^verbatim>\<open>main\<close> from sector number \<open>k\<close> on; the result is the exception
  that ended it (\<open>None\<close> for the \<^verbatim>\<open>break\<close>), the number of sectors processed and
  the world.
\<close>

function main_loop :: "string \<Rightarrow> bool \<Rightarrow> bytes \<Rightarrow> int \<Rightarrow> world \<Rightarrow> error option \<times> int \<times> world" where
  "main_loop target_dir verbose inp k w =
     (if take SECTOR_SIZE inp = [] then (None, k, w)
      else
        (case Sector_init (take SECTOR_SIZE inp) of
           Inl e \<Rightarrow> (Some e, k, w)
         | Inr s \<Rightarrow>
            (case main_body target_dir verbose k s w of
               (Some e, w') \<Rightarrow> (Some e, k, w')
             | (None, w') \<Rightarrow> main_loop target_dir verbose (drop SECTOR_SIZE inp) (k + 1) w')))"
  by pat_completeness auto
termination
  by (relation "measure (\<lambda>(t, v, inp, k, w). length inp)") (auto simp: SECTOR_SIZE_def)

definition main :: "bytes \<Rightarrow> string \<Rightarrow> bool \<Rightarrow> world \<Rightarrow> error option \<times> int \<times> world" where
  "main infile target_dir verbose w = main_loop target_dir verbose infile 0 (makedirs target_dir w)"

subsection \<open>Example blocks\<close>

text \<open>
  A well-formed block for the examples: the sync value, the given bytes from offset 12 on
  (address, mode, subheader), and zeros up to 2352 bytes.
\<close>

definition example_block :: "byte list \<Rightarrow> bytes" where
  "example_block hdr = SYNC @ hdr @ replicate (2340 - length hdr) 0"

text \<open>A world with no directory, no file and nothing printed.\<close>

definition empty_world :: world where
  "empty_world = \<lparr> dirs = {}, files = (\<lambda>p. None), stdout = [] \<rparr>"

section \<open>Properties\<close>

subsection \<open>Auxiliary facts\<close>

declare main_loop.simps [simp del]

lemma bind_e_Inr [simp]: "bind_e (Inr v) f = f v"
  by (simp add: bind_e_def)

lemma bind_e_Inl [simp]: "bind_e (Inl e) f = Inl e"
  by (simp add: bind_e_def)

lemma index_in_range: "i < length xs \<Longrightarrow> index xs i = Inr (uint (xs ! i))"
  by (simp add: index_def)

lemma length_slice: "length (slice a b xs) = min b (length xs) - a"
  by (simp add: slice_def min.commute)

lemma nth_slice: "a + i < b \<Longrightarrow> b \<le> length xs \<Longrightarrow> slice a b xs ! i = xs ! (a + i)"
  by (simp add: slice_def)

lemma slice_from_eq_slice: "slice_from a xs = slice a (length xs) xs"
  by (simp add: slice_def slice_from_def)

lemma truthy_bit: "truthy (uint (w :: byte) AND 2 ^ k) \<longleftrightarrow> bit w k"
  by (auto simp add: truthy_def and_exp_eq_0_iff_not_bit bit_uint_iff dest: bit_imp_le_length)

lemma truthy_masks:
  fixes w :: byte
  shows "truthy (uint w AND 1) \<longleftrightarrow> bit w 0"
    and "truthy (uint w AND 2) \<longleftrightarrow> bit w 1"
    and "truthy (uint w AND 4) \<longleftrightarrow> bit w 2"
    and "truthy (uint w AND 8) \<longleftrightarrow> bit w 3"
    and "truthy (uint w AND 16) \<longleftrightarrow> bit w 4"
    and "truthy (uint w AND 32) \<longleftrightarrow> bit w 5"
    and "truthy (uint w AND 64) \<longleftrightarrow> bit w 6"
    and "truthy (uint w AND 128) \<longleftrightarrow> bit w 7"
  using truthy_bit [of w 0] truthy_bit [of w 1] truthy_bit [of w 2] truthy_bit [of w 3]
    truthy_bit [of w 4] truthy_bit [of w 5] truthy_bit [of w 6] truthy_bit [of w 7]
  by simp_all

lemma and_15_mod: "(x::int) AND 15 = x mod 16"
proof -
  have "(15::int) = mask 4" by (simp add: mask_eq_exp_minus_1)
  then have "x AND 15 = take_bit 4 x" by (simp add: take_bit_eq_mask)
  then show ?thesis by (simp add: take_bit_eq_mod)
qed

lemma and_31_mod: "(x::int) AND 31 = x mod 32"
proof -
  have "(31::int) = mask 5" by (simp add: mask_eq_exp_minus_1)
  then have "x AND 31 = take_bit 5 x" by (simp add: take_bit_eq_mask)
  then show ?thesis by (simp add: take_bit_eq_mod)
qed

lemma bcd_arith: "bcd_to_int x = x mod 16 + (x div 16) * 10"
  by (simp add: bcd_to_int_def and_15_mod drop_bit_eq_div)

lemma length_SYNC: "length SYNC = 12"
  by (simp add: SYNC_def)

lemma startswith_SYNC: "startswith d SYNC \<longleftrightarrow> take 12 d = SYNC"
  by (simp only: startswith_def length_SYNC)

lemma Sector_init_valid:
  assumes "length d = 2352" and "startswith d SYNC"
  shows "Sector_init d =
     (let mi = bcd_to_int (uint (d ! 12)); se = bcd_to_int (uint (d ! 13));
          sc = bcd_to_int (uint (d ! 14)); mo = uint (d ! 15) in
      if mo = 0 then Inr (fresh mi se sc mo 0 [])
      else if mo = 1 then
        Inr ((fresh mi se sc mo 2048 (slice 16 2064 d))
               \<lparr> checksum := Some (slice 2064 2068 d), ecc := Some (slice_from 2076 d) \<rparr>)
      else if mo = 2 then init_mode2 d mi se sc mo
      else Inl UnknownMode)"
  using assms
  by (simp add: Sector_init_def SECTOR_SIZE_def index_in_range Let_def)

lemma init_mode2_valid:
  assumes "length d = 2352"
  shows "init_mode2 d mi se sc mo =
     (let sm = uint (d ! 18) in
      Inr ((if bit (d ! 18) 5
            then (fresh mi se sc mo 2324 (slice 24 2348 d))
                   \<lparr> form := Some 2, checksum := Some (slice_from 2348 d) \<rparr>
            else (fresh mi se sc mo 2048 (slice 24 2072 d))
                   \<lparr> form := Some 1, checksum := Some (slice 2072 2076 d),
                     ecc := Some (slice_from 2076 d) \<rparr>)
           \<lparr> file := Some (uint (d ! 16)), channel := Some (uint (d ! 17) AND 31),
             submode := Some sm,
             eor := Some (bit (d ! 18) 0),
             type_video := Some (bit (d ! 18) 1),
             type_audio := Some (bit (d ! 18) 2),
             type_data := Some (bit (d ! 18) 3),
             trigger := Some (bit (d ! 18) 4),
             realtime := Some (bit (d ! 18) 6),
             eof := Some (bit (d ! 18) 7),
             codinginfo := Some (uint (d ! 19)) \<rparr>))"
  using assms
  by (simp add: init_mode2_def Let_def index_in_range length_slice nth_slice truthy_masks)


lemma length_example_block: "length hdr \<le> 2340 \<Longrightarrow> length (example_block hdr) = 2352"
  by (simp add: example_block_def length_SYNC)

lemma startswith_example_block: "startswith (example_block hdr) SYNC"
  by (simp add: example_block_def startswith_def)

lemma nth_example_block:
  "example_block [b12, b13, b14, b15, b16, b17, b18, b19] ! 12 = b12"
  "example_block [b12, b13, b14, b15, b16, b17, b18, b19] ! 13 = b13"
  "example_block [b12, b13, b14, b15, b16, b17, b18, b19] ! 14 = b14"
  "example_block [b12, b13, b14, b15, b16, b17, b18, b19] ! 15 = b15"
  "example_block [b12, b13, b14, b15, b16, b17, b18, b19] ! 16 = b16"
  "example_block [b12, b13, b14, b15, b16, b17, b18, b19] ! 17 = b17"
  "example_block [b12, b13, b14, b15, b16, b17, b18, b19] ! 18 = b18"
  "example_block [b12, b13, b14, b15, b16, b17, b18, b19] ! 19 = b19"
  by (simp_all add: example_block_def SYNC_def)

lemma Sector_init_Inr_D:
  "Sector_init d = Inr s \<Longrightarrow> length d = 2352 \<and> startswith d SYNC"
  by (auto simp: Sector_init_def SECTOR_SIZE_def split: if_splits)

lemma uint_byte_eq_iff:
  fixes b :: byte
  shows "uint b = 0 \<longleftrightarrow> b = 0" and "uint b = 1 \<longleftrightarrow> b = 1" and "uint b = 2 \<longleftrightarrow> b = 2"
    and "uint b = 32 \<longleftrightarrow> b = 32"
  by (simp_all add: word_uint_eq_iff)

lemma Sector_init_mode2:
  assumes "Sector_init d = Inr s" and "d ! 15 = 2"
  shows "s = (if bit (d ! 18) 5
            then (fresh (bcd_to_int (uint (d ! 12))) (bcd_to_int (uint (d ! 13)))
                    (bcd_to_int (uint (d ! 14))) 2 2324 (slice 24 2348 d))
                   \<lparr> form := Some 2, checksum := Some (slice_from 2348 d) \<rparr>
            else (fresh (bcd_to_int (uint (d ! 12))) (bcd_to_int (uint (d ! 13)))
                    (bcd_to_int (uint (d ! 14))) 2 2048 (slice 24 2072 d))
                   \<lparr> form := Some 1, checksum := Some (slice 2072 2076 d),
                     ecc := Some (slice_from 2076 d) \<rparr>)
           \<lparr> file := Some (uint (d ! 16)), channel := Some (uint (d ! 17) AND 31),
             submode := Some (uint (d ! 18)),
             eor := Some (bit (d ! 18) 0),
             type_video := Some (bit (d ! 18) 1),
             type_audio := Some (bit (d ! 18) 2),
             type_data := Some (bit (d ! 18) 3),
             trigger := Some (bit (d ! 18) 4),
             realtime := Some (bit (d ! 18) 6),
             eof := Some (bit (d ! 18) 7),
             codinginfo := Some (uint (d ! 19)) \<rparr>"
proof -
  from assms(1) have len: "length d = 2352" and sync: "startswith d SYNC"
    by (simp_all add: Sector_init_Inr_D)
  from assms(2) have mo: "uint (d ! 15) = 2" by simp
  have "Sector_init d = init_mode2 d (bcd_to_int (uint (d ! 12))) (bcd_to_int (uint (d ! 13)))
          (bcd_to_int (uint (d ! 14))) 2"
    by (simp add: Sector_init_valid [OF len sync] mo Let_def)
  with assms(1) show ?thesis
    by (simp add: init_mode2_valid [OF len] Let_def)
qed

lemma Sector_init_succeeds:
  assumes "length d = 2352" and "startswith d SYNC" and "uint (d ! 15) \<in> {0, 1, 2}"
  shows "\<exists>s. Sector_init d = Inr s"
  using assms(3) 
  by (auto simp add: Sector_init_valid [OF assms(1,2)] init_mode2_valid [OF assms(1)] Let_def)

subsection \<open>The mode-2 subheader\<close>

text \<open>
  C1. For every 2352-byte block whose mode byte (byte 15) is 2, the constructor succeeds as
  soon as the block starts with the sync value, and the sector it returns has
  \<open>file\<close> = byte 16, \<open>channel\<close> = byte 17 AND 31 (so between 0 and 31),
  \<open>submode\<close> = byte 18, \<open>codinginfo\<close> = byte 19, and the flags are the bits of
  byte 18 counted from the least significant: \<open>eor\<close> bit 0, \<open>type_video\<close> bit 1,
  \<open>type_audio\<close> bit 2, \<open>type_data\<close> bit 3, \<open>trigger\<close> bit 4, form 2 iff bit 5,
  \<open>realtime\<close> bit 6, \<open>eof\<close> bit 7.
\<close>

theorem mode2_subheader:
  assumes "length d = 2352" and "d ! 15 = 2"
  shows "(startswith d SYNC \<longrightarrow> (\<exists>s. Sector_init d = Inr s)) \<and>
         (\<forall>s. Sector_init d = Inr s \<longrightarrow>
            file s = Some (uint (d ! 16)) \<and>
            channel s = Some (uint (d ! 17) AND 31) \<and>
            (\<exists>c. channel s = Some c \<and> 0 \<le> c \<and> c \<le> 31) \<and>
            submode s = Some (uint (d ! 18)) \<and>
            codinginfo s = Some (uint (d ! 19)) \<and>
            eor s = Some (bit (d ! 18) 0) \<and>
            type_video s = Some (bit (d ! 18) 1) \<and>
            type_audio s = Some (bit (d ! 18) 2) \<and>
            type_data s = Some (bit (d ! 18) 3) \<and>
            trigger s = Some (bit (d ! 18) 4) \<and>
            form s = Some (if bit (d ! 18) 5 then 2 else 1) \<and>
            realtime s = Some (bit (d ! 18) 6) \<and>
            eof s = Some (bit (d ! 18) 7))"
proof (intro conjI impI allI)
  assume "startswith d SYNC"
  with assms show "\<exists>s. Sector_init d = Inr s"
    by (simp add: Sector_init_succeeds)
next
  fix s assume ok: "Sector_init d = Inr s"
  note eq = Sector_init_mode2 [OF ok assms(2)]
  show "file s = Some (uint (d ! 16))" by (subst eq) simp
  show "channel s = Some (uint (d ! 17) AND 31)" by (subst eq) simp
  then show "\<exists>c. channel s = Some c \<and> 0 \<le> c \<and> c \<le> 31" by simp
  show "submode s = Some (uint (d ! 18))" by (subst eq) simp
  show "codinginfo s = Some (uint (d ! 19))" by (subst eq) simp
  show "eor s = Some (bit (d ! 18) 0)" by (subst eq) simp
  show "type_video s = Some (bit (d ! 18) 1)" by (subst eq) simp
  show "type_audio s = Some (bit (d ! 18) 2)" by (subst eq) simp
  show "type_data s = Some (bit (d ! 18) 3)" by (subst eq) simp
  show "trigger s = Some (bit (d ! 18) 4)" by (subst eq) simp
  show "form s = Some (if bit (d ! 18) 5 then 2 else 1)" by (subst eq) (simp add: fresh_def)
  show "realtime s = Some (bit (d ! 18) 6)" by (subst eq) simp
  show "eof s = Some (bit (d ! 18) 7)" by (subst eq) simp
qed

theorem mode2_subheader_witness:
  "length (example_block [0x00, 0x02, 0x27, 2, 1, 0xff, 0x06, 0x0f]) = 2352 \<and>
   example_block [0x00, 0x02, 0x27, 2, 1, 0xff, 0x06, 0x0f] ! 15 = 2 \<and>
   (\<exists>s. Sector_init (example_block [0x00, 0x02, 0x27, 2, 1, 0xff, 0x06, 0x0f]) = Inr s \<and>
        file s = Some 1 \<and> channel s = Some 31 \<and> submode s = Some 6 \<and>
        codinginfo s = Some 15 \<and> eor s = Some False \<and> type_video s = Some True \<and>
        type_audio s = Some True \<and> type_data s = Some False \<and> form s = Some 1)"
proof -
  let ?d = "example_block [0x00, 0x02, 0x27, 2, 1, 0xff, 0x06, 0x0f]"
  have len: "length ?d = 2352" by (simp add: length_example_block)
  have mo: "?d ! 15 = 2" by (simp add: nth_example_block)
  note inst = mode2_subheader [OF len mo]
  from inst startswith_example_block obtain s where ok: "Sector_init ?d = Inr s" by blast
  from inst ok have
    "file s = Some (uint (?d ! 16))" "channel s = Some (uint (?d ! 17) AND 31)"
    "submode s = Some (uint (?d ! 18))" "codinginfo s = Some (uint (?d ! 19))"
    "eor s = Some (bit (?d ! 18) 0)" "type_video s = Some (bit (?d ! 18) 1)"
    "type_audio s = Some (bit (?d ! 18) 2)" "type_data s = Some (bit (?d ! 18) 3)"
    "form s = Some (if bit (?d ! 18) 5 then 2 else 1)"
    by blast+
  then have "file s = Some 1 \<and> channel s = Some 31 \<and> submode s = Some 6 \<and>
        codinginfo s = Some 15 \<and> eor s = Some False \<and> type_video s = Some True \<and>
        type_audio s = Some True \<and> type_data s = Some False \<and> form s = Some 1"
    by (simp add: nth_example_block bit_numeral_simps and_31_mod)
  with len mo ok show ?thesis by blast
qed

lemma Sector_init_mode0:
  assumes "Sector_init d = Inr s" and "d ! 15 = 0"
  shows "s = fresh (bcd_to_int (uint (d ! 12))) (bcd_to_int (uint (d ! 13)))
               (bcd_to_int (uint (d ! 14))) 0 0 []"
proof -
  from assms(1) have len: "length d = 2352" and sync: "startswith d SYNC"
    by (simp_all add: Sector_init_Inr_D)
  from assms show ?thesis
    by (simp add: Sector_init_valid [OF len sync] Let_def)
qed

lemma Sector_init_mode1:
  assumes "Sector_init d = Inr s" and "d ! 15 = 1"
  shows "s = (fresh (bcd_to_int (uint (d ! 12))) (bcd_to_int (uint (d ! 13)))
               (bcd_to_int (uint (d ! 14))) 1 2048 (slice 16 2064 d))
              \<lparr> checksum := Some (slice 2064 2068 d), ecc := Some (slice_from 2076 d) \<rparr>"
proof -
  from assms(1) have len: "length d = 2352" and sync: "startswith d SYNC"
    by (simp_all add: Sector_init_Inr_D)
  from assms show ?thesis
    by (simp add: Sector_init_valid [OF len sync] Let_def)
qed

subsection \<open>Form 1 and form 2\<close>

text \<open>
  C2. For every 2352-byte block with mode byte 2 that the constructor accepts (it accepts
  it as soon as it starts with the sync value): if bit 5 of byte 18 is set, the sector is
  form 2, its data is bytes 24 to 2348 (2324 bytes), its checksum bytes 2348 to 2352 and it
  has no ecc; otherwise it is form 1, its data is bytes 24 to 2072 (2048 bytes), its
  checksum bytes 2072 to 2076 and its ecc bytes 2076 to 2352.
\<close>

theorem mode2_forms:
  assumes "length d = 2352" and "d ! 15 = 2"
  shows "(startswith d SYNC \<longrightarrow> (\<exists>s. Sector_init d = Inr s)) \<and>
         (\<forall>s. Sector_init d = Inr s \<longrightarrow>
            (bit (d ! 18) 5 \<longrightarrow>
               form s = Some 2 \<and> data s = slice 24 2348 d \<and> length (data s) = 2324 \<and>
               checksum s = Some (slice 2348 2352 d) \<and> ecc s = None) \<and>
            (\<not> bit (d ! 18) 5 \<longrightarrow>
               form s = Some 1 \<and> data s = slice 24 2072 d \<and> length (data s) = 2048 \<and>
               checksum s = Some (slice 2072 2076 d) \<and> ecc s = Some (slice 2076 2352 d)))"
proof (intro conjI impI allI)
  assume "startswith d SYNC"
  with assms show "\<exists>s. Sector_init d = Inr s"
    by (simp add: Sector_init_succeeds)
next
  fix s assume ok: "Sector_init d = Inr s" and f2: "bit (d ! 18) 5"
  note eq = Sector_init_mode2 [OF ok assms(2)]
  show "form s = Some 2" by (subst eq) (simp add: f2 fresh_def)
  show dat: "data s = slice 24 2348 d" by (subst eq) (simp add: f2 fresh_def)
  show "length (data s) = 2324" by (simp add: dat length_slice assms(1))
  show "checksum s = Some (slice 2348 2352 d)"
    by (subst eq) (simp add: f2 fresh_def slice_from_eq_slice assms(1))
  show "ecc s = None" by (subst eq) (simp add: f2 fresh_def)
next
  fix s assume ok: "Sector_init d = Inr s" and f1: "\<not> bit (d ! 18) 5"
  note eq = Sector_init_mode2 [OF ok assms(2)]
  show "form s = Some 1" by (subst eq) (simp add: f1 fresh_def)
  show dat: "data s = slice 24 2072 d" by (subst eq) (simp add: f1 fresh_def)
  show "length (data s) = 2048" by (simp add: dat length_slice assms(1))
  show "checksum s = Some (slice 2072 2076 d)" by (subst eq) (simp add: f1 fresh_def)
  show "ecc s = Some (slice 2076 2352 d)"
    by (subst eq) (simp add: f1 fresh_def slice_from_eq_slice assms(1))
qed

theorem mode2_forms_witness:
  "length (example_block [0x00, 0x02, 0x28, 2, 1, 3, 0x24, 0]) = 2352 \<and>
   example_block [0x00, 0x02, 0x28, 2, 1, 3, 0x24, 0] ! 15 = 2 \<and>
   bit (example_block [0x00, 0x02, 0x28, 2, 1, 3, 0x24, 0] ! 18) 5 \<and>
   (\<exists>s. Sector_init (example_block [0x00, 0x02, 0x28, 2, 1, 3, 0x24, 0]) = Inr s \<and>
        form s = Some 2 \<and> length (data s) = 2324 \<and> ecc s = None) \<and>
   length (example_block [0x00, 0x02, 0x27, 2, 1, 0xff, 0x06, 0x0f]) = 2352 \<and>
   example_block [0x00, 0x02, 0x27, 2, 1, 0xff, 0x06, 0x0f] ! 15 = 2 \<and>
   \<not> bit (example_block [0x00, 0x02, 0x27, 2, 1, 0xff, 0x06, 0x0f] ! 18) 5 \<and>
   (\<exists>s. Sector_init (example_block [0x00, 0x02, 0x27, 2, 1, 0xff, 0x06, 0x0f]) = Inr s \<and>
        form s = Some 1 \<and> length (data s) = 2048 \<and>
        ecc s = Some (slice 2076 2352 (example_block [0x00, 0x02, 0x27, 2, 1, 0xff, 0x06, 0x0f])))"
proof -
  let ?d = "example_block [0x00, 0x02, 0x28, 2, 1, 3, 0x24, 0]"
  let ?e = "example_block [0x00, 0x02, 0x27, 2, 1, 0xff, 0x06, 0x0f]"
  have len: "length ?d = 2352" "length ?e = 2352" by (simp_all add: length_example_block)
  have mo: "?d ! 15 = 2" "?e ! 15 = 2" by (simp_all add: nth_example_block)
  have b5: "bit (?d ! 18) 5" "\<not> bit (?e ! 18) 5"
    by (simp_all add: nth_example_block bit_numeral_simps)
  note inst_d = mode2_forms [OF len(1) mo(1)]
  note inst_e = mode2_forms [OF len(2) mo(2)]
  from inst_d startswith_example_block obtain s where s: "Sector_init ?d = Inr s" by blast
  from inst_e startswith_example_block obtain t where t: "Sector_init ?e = Inr t" by blast
  from inst_d s b5(1) have "form s = Some 2 \<and> length (data s) = 2324 \<and> ecc s = None"
    by blast
  moreover from inst_e t b5(2) have "form t = Some 1 \<and> length (data t) = 2048 \<and>
        ecc t = Some (slice 2076 2352 ?e)"
    by blast
  ultimately show ?thesis using len mo b5 s t by blast
qed

subsection \<open>Modes 0 and 1\<close>

text \<open>
  C3. For every 2352-byte block with mode byte 0 that the constructor accepts, the data
  is empty and none of the mode-2 attributes is set; with mode byte 1, the data is bytes
  16 to 2064 (2048 bytes), the checksum bytes 2064 to 2068 and the ecc bytes 2076 to 2352.
  In both modes a block that starts with the sync value is accepted.
\<close>

theorem mode0_mode1_payload:
  assumes "length d = 2352"
  shows "(d ! 15 = 0 \<longrightarrow>
            (startswith d SYNC \<longrightarrow> (\<exists>s. Sector_init d = Inr s)) \<and>
            (\<forall>s. Sector_init d = Inr s \<longrightarrow>
               data s = [] \<and> length (data s) = 0 \<and> data_size s = 0 \<and>
               file s = None \<and> channel s = None \<and> submode s = None \<and>
               codinginfo s = None \<and> eor s = None \<and> type_video s = None \<and>
               type_audio s = None \<and> type_data s = None \<and> trigger s = None \<and>
               form s = None \<and> realtime s = None \<and> eof s = None)) \<and>
         (d ! 15 = 1 \<longrightarrow>
            (startswith d SYNC \<longrightarrow> (\<exists>s. Sector_init d = Inr s)) \<and>
            (\<forall>s. Sector_init d = Inr s \<longrightarrow>
               data s = slice 16 2064 d \<and> length (data s) = 2048 \<and>
               checksum s = Some (slice 2064 2068 d) \<and>
               ecc s = Some (slice 2076 2352 d)))"
proof (intro conjI impI allI)
  assume "d ! 15 = 0" "startswith d SYNC"
  with assms show "\<exists>s. Sector_init d = Inr s" by (simp add: Sector_init_succeeds)
next
  assume "d ! 15 = 1" "startswith d SYNC"
  with assms show "\<exists>s. Sector_init d = Inr s" by (simp add: Sector_init_succeeds)
next
  fix s assume m0: "d ! 15 = 0" and ok: "Sector_init d = Inr s"
  note eq = Sector_init_mode0 [OF ok m0]
  show dat: "data s = []" by (subst eq) (simp add: fresh_def)
  show "length (data s) = 0" by (simp add: dat)
  show "data_size s = 0" by (subst eq) (simp add: fresh_def)
  show "file s = None" by (subst eq) (simp add: fresh_def)
  show "channel s = None" by (subst eq) (simp add: fresh_def)
  show "submode s = None" by (subst eq) (simp add: fresh_def)
  show "codinginfo s = None" by (subst eq) (simp add: fresh_def)
  show "eor s = None" by (subst eq) (simp add: fresh_def)
  show "type_video s = None" by (subst eq) (simp add: fresh_def)
  show "type_audio s = None" by (subst eq) (simp add: fresh_def)
  show "type_data s = None" by (subst eq) (simp add: fresh_def)
  show "trigger s = None" by (subst eq) (simp add: fresh_def)
  show "form s = None" by (subst eq) (simp add: fresh_def)
  show "realtime s = None" by (subst eq) (simp add: fresh_def)
  show "eof s = None" by (subst eq) (simp add: fresh_def)
next
  fix s assume m1: "d ! 15 = 1" and ok: "Sector_init d = Inr s"
  note eq = Sector_init_mode1 [OF ok m1]
  show dat: "data s = slice 16 2064 d" by (subst eq) (simp add: fresh_def)
  show "length (data s) = 2048" by (simp add: dat length_slice assms)
  show "checksum s = Some (slice 2064 2068 d)" by (subst eq) (simp add: fresh_def)
  show "ecc s = Some (slice 2076 2352 d)"
    by (subst eq) (simp add: fresh_def slice_from_eq_slice assms)
qed

theorem mode0_mode1_payload_witness:
  "length (example_block [0, 0, 0, 0, 0, 0, 0, 0]) = 2352 \<and>
   example_block [0, 0, 0, 0, 0, 0, 0, 0] ! 15 = 0 \<and>
   (\<exists>s. Sector_init (example_block [0, 0, 0, 0, 0, 0, 0, 0]) = Inr s \<and>
        data s = [] \<and> file s = None \<and> form s = None) \<and>
   length (example_block [0x12, 0x34, 0x56, 1, 7, 7, 7, 7]) = 2352 \<and>
   example_block [0x12, 0x34, 0x56, 1, 7, 7, 7, 7] ! 15 = 1 \<and>
   (\<exists>s. Sector_init (example_block [0x12, 0x34, 0x56, 1, 7, 7, 7, 7]) = Inr s \<and>
        length (data s) = 2048 \<and>
        data s = slice 16 2064 (example_block [0x12, 0x34, 0x56, 1, 7, 7, 7, 7]))"
proof -
  let ?d = "example_block [0, 0, 0, 0, 0, 0, 0, 0]"
  let ?e = "example_block [0x12, 0x34, 0x56, 1, 7, 7, 7, 7]"
  have len: "length ?d = 2352" "length ?e = 2352" by (simp_all add: length_example_block)
  have mo: "?d ! 15 = 0" "?e ! 15 = 1" by (simp_all add: nth_example_block)
  note inst_d = mode0_mode1_payload [OF len(1)]
  note inst_e = mode0_mode1_payload [OF len(2)]
  from inst_d mo(1) startswith_example_block obtain s where s: "Sector_init ?d = Inr s"
    by blast
  from inst_e mo(2) startswith_example_block obtain t where t: "Sector_init ?e = Inr t"
    by blast
  from inst_d mo(1) s have "data s = [] \<and> file s = None \<and> form s = None" by blast
  moreover from inst_e mo(2) t have "length (data t) = 2048 \<and> data t = slice 16 2064 ?e"
    by blast
  ultimately show ?thesis using len mo s t by blast
qed

lemma startswith_SYNC_bytes:
  "startswith d SYNC \<longleftrightarrow>
     take 12 d = [0x00, 0xff, 0xff, 0xff, 0xff, 0xff, 0xff, 0xff, 0xff, 0xff, 0xff, 0x00]"
  unfolding startswith_SYNC by (simp add: SYNC_def)

lemma Sector_init_cases:
  assumes "length d = 2352" and "startswith d SYNC"
  shows "(uint (d ! 15) \<in> {0, 1, 2} \<and> (\<exists>s. Sector_init d = Inr s)) \<or>
         (uint (d ! 15) \<notin> {0, 1, 2} \<and> Sector_init d = Inl UnknownMode)"
proof (cases "uint (d ! 15) \<in> {0, 1, 2}")
  case True
  with assms show ?thesis by (simp add: Sector_init_succeeds)
next
  case False
  then show ?thesis by (simp add: Sector_init_valid [OF assms] Let_def)
qed

lemma Sector_init_address:
  assumes "Sector_init d = Inr s"
  shows "minute s = bcd_to_int (uint (d ! 12))" and "second s = bcd_to_int (uint (d ! 13))"
    and "sector s = bcd_to_int (uint (d ! 14))" and "mode s = uint (d ! 15)"
    and "uint (d ! 15) \<in> {0, 1, 2}"
proof -
  from assms have len: "length d = 2352" and sync: "startswith d SYNC"
    by (simp_all add: Sector_init_Inr_D)
  from Sector_init_cases [OF len sync] assms show mo: "uint (d ! 15) \<in> {0, 1, 2}"
    by auto
  then consider "d ! 15 = 0" | "d ! 15 = 1" | "d ! 15 = 2"
    by (auto simp: uint_byte_eq_iff)
  then have "minute s = bcd_to_int (uint (d ! 12)) \<and> second s = bcd_to_int (uint (d ! 13)) \<and>
    sector s = bcd_to_int (uint (d ! 14)) \<and> mode s = uint (d ! 15)"
  proof cases
    case 1
    show ?thesis by (subst (1 2 3 4) Sector_init_mode0 [OF assms 1]) (simp add: fresh_def 1)
  next
    case 2
    show ?thesis by (subst (1 2 3 4) Sector_init_mode1 [OF assms 2]) (simp add: fresh_def 2)
  next
    case 3
    show ?thesis by (subst (1 2 3 4) Sector_init_mode2 [OF assms 3]) (simp add: fresh_def 3)
  qed
  then show "minute s = bcd_to_int (uint (d ! 12))" "second s = bcd_to_int (uint (d ! 13))"
    "sector s = bcd_to_int (uint (d ! 14))" "mode s = uint (d ! 15)"
    by simp_all
qed

subsection \<open>The three decode errors and their order\<close>

text \<open>
  C4. The constructor raises the length error if and only if the input is not 2352 bytes
  long; on 2352 bytes it raises the sync error if and only if the first 12 bytes are not
  00 FF FF FF FF FF FF FF FF FF FF 00; with length and sync right it raises the
  unknown-mode error if and only if byte 15 is none of 0, 1, 2. The equivalences fix the
  order of the checks: length first, then sync, then mode.
\<close>

theorem decode_errors:
  "(Sector_init d = Inl BadLength \<longleftrightarrow> length d \<noteq> 2352) \<and>
   (length d = 2352 \<longrightarrow>
      (Sector_init d = Inl BadSync \<longleftrightarrow>
         take 12 d \<noteq> [0x00, 0xff, 0xff, 0xff, 0xff, 0xff, 0xff, 0xff, 0xff, 0xff, 0xff, 0x00])) \<and>
   (length d = 2352 \<and>
    take 12 d = [0x00, 0xff, 0xff, 0xff, 0xff, 0xff, 0xff, 0xff, 0xff, 0xff, 0xff, 0x00] \<longrightarrow>
      (Sector_init d = Inl UnknownMode \<longleftrightarrow> uint (d ! 15) \<notin> {0, 1, 2}))"
proof (cases "length d = 2352")
  case False
  then show ?thesis by (simp add: Sector_init_def SECTOR_SIZE_def)
next
  case len: True
  show ?thesis
  proof (cases "startswith d SYNC")
    case False
    then have "Sector_init d = Inl BadSync"
      by (simp add: Sector_init_def SECTOR_SIZE_def len)
    with False len show ?thesis
      by (simp add: startswith_SYNC_bytes)
  next
    case True
    from Sector_init_cases [OF len True] True len show ?thesis
      by (auto simp: startswith_SYNC_bytes)
  qed
qed

theorem decode_errors_witness:
  "length [1, 2, 3 :: byte] \<noteq> 2352 \<and> Sector_init [1, 2, 3] = Inl BadLength \<and>
   length (replicate 2352 (3 :: byte)) = 2352 \<and>
   take 12 (replicate 2352 (3 :: byte))
     \<noteq> [0x00, 0xff, 0xff, 0xff, 0xff, 0xff, 0xff, 0xff, 0xff, 0xff, 0xff, 0x00] \<and>
   Sector_init (replicate 2352 3) = Inl BadSync \<and>
   length (example_block [0, 0, 0, 3, 0, 0, 0, 0]) = 2352 \<and>
   take 12 (example_block [0, 0, 0, 3, 0, 0, 0, 0])
     = [0x00, 0xff, 0xff, 0xff, 0xff, 0xff, 0xff, 0xff, 0xff, 0xff, 0xff, 0x00] \<and>
   uint (example_block [0, 0, 0, 3, 0, 0, 0, 0] ! 15) \<notin> {0, 1, 2} \<and>
   Sector_init (example_block [0, 0, 0, 3, 0, 0, 0, 0]) = Inl UnknownMode"
proof -
  let ?e = "example_block [0, 0, 0, 3, 0, 0, 0, 0]"
  have a: "length [1, 2, 3 :: byte] \<noteq> 2352" by simp
  have b: "length (replicate 2352 (3 :: byte)) = 2352" by simp
  have "take 12 (replicate 2352 (3 :: byte)) ! 0 = 3" by simp
  then have c: "take 12 (replicate 2352 (3 :: byte))
     \<noteq> [0x00, 0xff, 0xff, 0xff, 0xff, 0xff, 0xff, 0xff, 0xff, 0xff, 0xff, 0x00]"
    by (auto dest: arg_cong [where f = "\<lambda>xs. xs ! 0"])
  have e: "length ?e = 2352" by (simp add: length_example_block)
  have f: "take 12 ?e = [0x00, 0xff, 0xff, 0xff, 0xff, 0xff, 0xff, 0xff, 0xff, 0xff, 0xff, 0x00]"
    using startswith_example_block [of "[0, 0, 0, 3, 0, 0, 0, 0]"]
    by (simp add: startswith_SYNC_bytes)
  have g: "uint (?e ! 15) \<notin> {0, 1, 2}" by (simp add: nth_example_block)
  from a decode_errors [of "[1, 2, 3]"] have "Sector_init [1, 2, 3] = Inl BadLength"
    by blast
  moreover from b c decode_errors [of "replicate 2352 3"]
  have "Sector_init (replicate 2352 3) = Inl BadSync" by blast
  moreover from e f g decode_errors [of ?e] have "Sector_init ?e = Inl UnknownMode"
    by blast
  ultimately show ?thesis using a b c e f g by blast
qed

subsection \<open>Filler sectors\<close>

text \<open>
  C5. For every sector the constructor returns, \<open>is_filler\<close> holds if and only if
  the mode is 0, or the mode is 2, the form is 2 and the submode byte is exactly 32; in
  terms of the block, byte 15 is 0, or byte 15 is 2 and byte 18 is 32. A form-2 sector
  whose submode is not exactly 32 is not filler.
\<close>

theorem filler_iff:
  assumes "Sector_init d = Inr s"
  shows "(is_filler s \<longleftrightarrow> mode s = 0 \<or> (mode s = 2 \<and> form s = Some 2 \<and> submode s = Some 32)) \<and>
         (is_filler s \<longleftrightarrow> d ! 15 = 0 \<or> (d ! 15 = 2 \<and> d ! 18 = 32)) \<and>
         (form s = Some 2 \<and> submode s \<noteq> Some 32 \<longrightarrow> \<not> is_filler s)"
proof -
  have one: "is_filler s \<longleftrightarrow> mode s = 0 \<or> (mode s = 2 \<and> form s = Some 2 \<and> submode s = Some 32)"
    by (simp add: is_filler_def)
  have mo: "mode s = uint (d ! 15)" by (rule Sector_init_address [OF assms])
  from Sector_init_address(5) [OF assms]
  consider "d ! 15 = 0" | "d ! 15 = 1" | "d ! 15 = 2"
    by (auto simp: uint_byte_eq_iff)
  then have rest: "(is_filler s \<longleftrightarrow> d ! 15 = 0 \<or> (d ! 15 = 2 \<and> d ! 18 = 32)) \<and>
         (form s = Some 2 \<and> submode s \<noteq> Some 32 \<longrightarrow> \<not> is_filler s)"
  proof cases
    case 1
    have "form s = None" by (subst Sector_init_mode0 [OF assms 1]) (simp add: fresh_def)
    with 1 mo show ?thesis by (simp add: one)
  next
    case 2
    have "form s = None" by (subst Sector_init_mode1 [OF assms 2]) (simp add: fresh_def)
    with 2 mo show ?thesis by (simp add: one)
  next
    case 3
    note eq = Sector_init_mode2 [OF assms 3]
    have fo: "form s = Some (if bit (d ! 18) 5 then 2 else 1)"
      by (subst eq) (simp add: fresh_def)
    have sm: "submode s = Some (uint (d ! 18))" by (subst eq) simp
    have "d ! 18 = 32 \<Longrightarrow> bit (d ! 18) 5" by (simp add: bit_numeral_simps)
    with 3 mo fo sm show ?thesis
      by (auto simp: one uint_byte_eq_iff)
  qed
  from one rest show ?thesis by blast
qed

theorem filler_iff_witness:
  "(\<exists>s. Sector_init (example_block [0x00, 0x02, 0x28, 2, 1, 3, 0x24, 0]) = Inr s \<and>
        form s = Some 2 \<and> submode s = Some 36 \<and> \<not> is_filler s) \<and>
   (\<exists>s. Sector_init (example_block [0x00, 0x02, 0x29, 2, 0, 0, 0x20, 0]) = Inr s \<and>
        is_filler s)"
proof -
  let ?d = "example_block [0x00, 0x02, 0x28, 2, 1, 3, 0x24, 0]"
  let ?e = "example_block [0x00, 0x02, 0x29, 2, 0, 0, 0x20, 0]"
  obtain s where s: "Sector_init ?d = Inr s"
    using Sector_init_succeeds [of ?d]
    by (auto simp: length_example_block startswith_example_block nth_example_block)
  obtain t where t: "Sector_init ?e = Inr t"
    using Sector_init_succeeds [of ?e]
    by (auto simp: length_example_block startswith_example_block nth_example_block)
  have "?d ! 15 = 2" by (simp add: nth_example_block)
  note eq = Sector_init_mode2 [OF s this]
  have "form s = Some 2" by (subst eq) (simp add: fresh_def nth_example_block bit_numeral_simps)
  moreover have sm: "submode s = Some 36" by (subst eq) (simp add: nth_example_block)
  moreover from sm have "submode s \<noteq> Some 32" by simp
  ultimately have "form s = Some 2 \<and> submode s = Some 36 \<and> \<not> is_filler s"
    using filler_iff [OF s] by blast
  moreover have "?e ! 15 = 2 \<and> ?e ! 18 = 32" by (simp add: nth_example_block)
  then have "is_filler t"
    using filler_iff [OF t] by blast
  ultimately show ?thesis using s t by blast
qed

subsection \<open>BCD decoding\<close>

text \<open>
  C7. For every byte \<open>b\<close>, \<open>bcd_to_int\<close> is \<open>(b AND 15) + (b >> 4) * 10\<close>, that is
  the low nibble plus ten times the high nibble, with no range check: 0x27 gives 27,
  0x00 gives 0, 0x99 gives 99, and the non-decimal 0xff gives 165 and 0x1a gives 20.
  It is what the constructor applies to bytes 12, 13 and 14 for minute, second and sector.
\<close>

theorem bcd_decode:
  fixes b :: byte
  shows "bcd_to_int (uint b) = (uint b AND 15) + drop_bit 4 (uint b) * 10 \<and>
         bcd_to_int (uint b) = uint b mod 16 + (uint b div 16) * 10 \<and>
         bcd_to_int 0x27 = 27 \<and> bcd_to_int 0x00 = 0 \<and> bcd_to_int 0x99 = 99 \<and>
         bcd_to_int 0xff = 165 \<and> bcd_to_int 0x1a = 20 \<and>
         (\<forall>d s. Sector_init d = Inr s \<longrightarrow>
            minute s = bcd_to_int (uint (d ! 12)) \<and>
            second s = bcd_to_int (uint (d ! 13)) \<and>
            sector s = bcd_to_int (uint (d ! 14)))"
proof (intro conjI allI impI)
  show "bcd_to_int (uint b) = (uint b AND 15) + drop_bit 4 (uint b) * 10"
    by (simp add: bcd_to_int_def)
  show "bcd_to_int (uint b) = uint b mod 16 + (uint b div 16) * 10"
    by (rule bcd_arith)
  show "bcd_to_int 0x27 = 27" "bcd_to_int 0x00 = 0" "bcd_to_int 0x99 = 99"
    "bcd_to_int 0xff = 165" "bcd_to_int 0x1a = 20"
    by (simp_all add: bcd_arith)
next
  fix d s assume ok: "Sector_init d = Inr s"
  show "minute s = bcd_to_int (uint (d ! 12))" "second s = bcd_to_int (uint (d ! 13))"
    "sector s = bcd_to_int (uint (d ! 14))"
    by (rule Sector_init_address [OF ok])+
qed

theorem bcd_decode_witness:
  "\<exists>s. Sector_init (example_block [0x00, 0x02, 0x27, 2, 1, 0xff, 0x06, 0x0f]) = Inr s \<and>
       minute s = 0 \<and> second s = 2 \<and> sector s = 27"
proof -
  let ?d = "example_block [0x00, 0x02, 0x27, 2, 1, 0xff, 0x06, 0x0f]"
  obtain s where s: "Sector_init ?d = Inr s"
    using Sector_init_succeeds [of ?d]
    by (auto simp: length_example_block startswith_example_block nth_example_block)
  from bcd_decode [of 0] s have "minute s = bcd_to_int (uint (?d ! 12)) \<and>
      second s = bcd_to_int (uint (?d ! 13)) \<and> sector s = bcd_to_int (uint (?d ! 14))"
    by blast
  then have "minute s = 0 \<and> second s = 2 \<and> sector s = 27"
    by (simp add: nth_example_block bcd_arith)
  with s show ?thesis by blast
qed

subsection \<open>The constructor is total\<close>

text \<open>
  C10. On every byte string the constructor either returns a sector, whose data then has
  the length recorded in \<open>data_size\<close>, or raises one of the three decode errors; it
  never raises \<open>IndexError\<close>. On a 2352-byte block every index it uses (12 to 15, and 0
  to 3 of the subheader) is in range and every slice it takes has its full length.
\<close>

theorem init_total:
  "((\<exists>s. Sector_init d = Inr s \<and> int (length (data s)) = data_size s) \<or>
    Sector_init d = Inl BadLength \<or> Sector_init d = Inl BadSync \<or>
    Sector_init d = Inl UnknownMode) \<and>
   Sector_init d \<noteq> Inl IndexError \<and>
   (length d = 2352 \<longrightarrow>
      index d 12 = Inr (uint (d ! 12)) \<and> index d 13 = Inr (uint (d ! 13)) \<and>
      index d 14 = Inr (uint (d ! 14)) \<and> index d 15 = Inr (uint (d ! 15)) \<and>
      length (slice 16 20 d) = 4 \<and>
      index (slice 16 20 d) 0 = Inr (uint (d ! 16)) \<and>
      index (slice 16 20 d) 1 = Inr (uint (d ! 17)) \<and>
      index (slice 16 20 d) 2 = Inr (uint (d ! 18)) \<and>
      index (slice 16 20 d) 3 = Inr (uint (d ! 19)) \<and>
      length (slice 16 2064 d) = 2048 \<and> length (slice 2064 2068 d) = 4 \<and>
      length (slice 24 2348 d) = 2324 \<and> length (slice 24 2072 d) = 2048 \<and>
      length (slice 2072 2076 d) = 4 \<and> length (slice_from 2076 d) = 276 \<and>
      length (slice_from 2348 d) = 4)"
proof (intro conjI impI)
  show res: "(\<exists>s. Sector_init d = Inr s \<and> int (length (data s)) = data_size s) \<or>
    Sector_init d = Inl BadLength \<or> Sector_init d = Inl BadSync \<or>
    Sector_init d = Inl UnknownMode"
  proof (cases "Sector_init d")
    case (Inl e)
    show ?thesis
    proof (cases "length d = 2352")
      case False
      then show ?thesis by (simp add: Sector_init_def SECTOR_SIZE_def)
    next
      case len: True
      show ?thesis
      proof (cases "startswith d SYNC")
        case False
        with len show ?thesis by (simp add: Sector_init_def SECTOR_SIZE_def)
      next
        case True
        from Sector_init_cases [OF len True] Inl show ?thesis by auto
      qed
    qed
  next
    case (Inr s)
    then have len: "length d = 2352" by (simp add: Sector_init_Inr_D)
    from Sector_init_address(5) [OF Inr]
    consider "d ! 15 = 0" | "d ! 15 = 1" | "d ! 15 = 2"
      by (auto simp: uint_byte_eq_iff)
    then have "int (length (data s)) = data_size s"
    proof cases
      case 1
      show ?thesis by (subst (1 2) Sector_init_mode0 [OF Inr 1]) (simp add: fresh_def)
    next
      case 2
      show ?thesis
        by (subst (1 2) Sector_init_mode1 [OF Inr 2]) (simp add: fresh_def length_slice len)
    next
      case 3
      show ?thesis
        by (subst (1 2) Sector_init_mode2 [OF Inr 3]) (simp add: fresh_def length_slice len)
    qed
    with Inr show ?thesis by simp
  qed
  from res show "Sector_init d \<noteq> Inl IndexError" by auto
next
  assume len: "length d = 2352"
  show "index d 12 = Inr (uint (d ! 12))" "index d 13 = Inr (uint (d ! 13))"
    "index d 14 = Inr (uint (d ! 14))" "index d 15 = Inr (uint (d ! 15))"
    by (simp_all add: index_in_range len)
  show "length (slice 16 20 d) = 4" "length (slice 16 2064 d) = 2048"
    "length (slice 2064 2068 d) = 4" "length (slice 24 2348 d) = 2324"
    "length (slice 24 2072 d) = 2048" "length (slice 2072 2076 d) = 4"
    by (simp_all add: length_slice len)
  show "length (slice_from 2076 d) = 276" "length (slice_from 2348 d) = 4"
    by (simp_all add: slice_from_def len)
  show "index (slice 16 20 d) 0 = Inr (uint (d ! 16))"
    "index (slice 16 20 d) 1 = Inr (uint (d ! 17))"
    "index (slice 16 20 d) 2 = Inr (uint (d ! 18))"
    "index (slice 16 20 d) 3 = Inr (uint (d ! 19))"
    by (simp_all add: index_in_range length_slice nth_slice len)
qed

theorem init_total_witness:
  "length (example_block [0x00, 0x02, 0x28, 2, 1, 3, 0x24, 0]) = 2352 \<and>
   index (example_block [0x00, 0x02, 0x28, 2, 1, 3, 0x24, 0]) 15 = Inr 2 \<and>
   index (slice 16 20 (example_block [0x00, 0x02, 0x28, 2, 1, 3, 0x24, 0])) 2 = Inr 36 \<and>
   length (slice 24 2348 (example_block [0x00, 0x02, 0x28, 2, 1, 3, 0x24, 0])) = 2324 \<and>
   (\<exists>s. Sector_init (example_block [0x00, 0x02, 0x28, 2, 1, 3, 0x24, 0]) = Inr s \<and>
        int (length (data s)) = data_size s)"
proof -
  let ?d = "example_block [0x00, 0x02, 0x28, 2, 1, 3, 0x24, 0]"
  have len: "length ?d = 2352" by (simp add: length_example_block)
  note inst = init_total [of ?d]
  from inst len have "index ?d 15 = Inr (uint (?d ! 15))"
    "index (slice 16 20 ?d) 2 = Inr (uint (?d ! 18))" "length (slice 24 2348 ?d) = 2324"
    by blast+
  then have a: "index ?d 15 = Inr 2" "index (slice 16 20 ?d) 2 = Inr 36"
    "length (slice 24 2348 ?d) = 2324"
    by (simp_all add: nth_example_block)
  obtain s where s: "Sector_init ?d = Inr s"
    using Sector_init_succeeds [of ?d]
    by (auto simp: length_example_block startswith_example_block nth_example_block)
  with inst have "int (length (data s)) = data_size s" by auto
  with len a s show ?thesis by blast
qed

subsection \<open>Auxiliary facts about the driver\<close>

lemma main_loop_Nil: "main_loop t v [] k w = (None, k, w)"
  by (simp add: main_loop.simps)

lemma main_loop_short:
  assumes "0 < length inp" and "length inp < 2352"
  shows "main_loop t v inp k w = (Some BadLength, k, w)"
proof -
  from assms have "take SECTOR_SIZE inp = inp" "inp \<noteq> []"
    by (auto simp: SECTOR_SIZE_def)
  moreover from assms have "Sector_init inp = Inl BadLength"
    by (simp add: Sector_init_def SECTOR_SIZE_def)
  ultimately show ?thesis by (simp add: main_loop.simps [of t v inp])
qed

lemma main_loop_block:
  assumes "length blk = 2352"
  shows "main_loop t v (blk @ rest) k w =
     (case Sector_init blk of
        Inl e \<Rightarrow> (Some e, k, w)
      | Inr s \<Rightarrow>
         (case main_body t v k s w of
            (Some e, w') \<Rightarrow> (Some e, k, w')
          | (None, w') \<Rightarrow> main_loop t v rest (k + 1) w'))"
proof -
  from assms have a: "take SECTOR_SIZE (blk @ rest) = blk"
    and b: "drop SECTOR_SIZE (blk @ rest) = rest" and c: "blk \<noteq> []"
    by (auto simp: SECTOR_SIZE_def)
  show ?thesis by (subst main_loop.simps, unfold a b) (simp add: c)
qed

lemma main_loop_normal_D:
  "main_loop t v inp k w = (None, k', w') \<Longrightarrow>
     2352 dvd length inp \<and> k' = k + int (length inp div 2352)"
proof (induction t v inp k w rule: main_loop.induct)
  case (1 t v inp k w)
  show ?case
  proof (cases "inp = []")
    case True
    with "1.prems" show ?thesis by (simp add: main_loop_Nil)
  next
    case ne: False
    show ?thesis
    proof (cases "length inp < 2352")
      case True
      with ne "1.prems" show ?thesis by (simp add: main_loop_short)
    next
      case False
      then have len: "length (take 2352 inp) = 2352" by simp
      have split: "inp = take 2352 inp @ drop 2352 inp" by simp
      have tk: "take SECTOR_SIZE inp = take 2352 inp" "drop SECTOR_SIZE inp = drop 2352 inp"
        by (simp_all add: SECTOR_SIZE_def)
      from ne False have nonempty: "take SECTOR_SIZE inp \<noteq> []" by (simp add: tk)
      from "1.prems" obtain s where s: "Sector_init (take 2352 inp) = Inr s"
        by (subst (asm) split, subst (asm) main_loop_block [OF len])
          (auto split: sum.splits)
      from "1.prems" s obtain w1 where w1: "main_body t v k s w = (None, w1)"
        and rest: "main_loop t v (drop 2352 inp) (k + 1) w1 = (None, k', w')"
        by (subst (asm) split, subst (asm) main_loop_block [OF len])
          (auto split: prod.splits option.splits)
      have "2352 dvd length (drop SECTOR_SIZE inp) \<and>
            k' = (k + 1) + int (length (drop SECTOR_SIZE inp) div 2352)"
        using nonempty s w1 rest
        by (intro "1.IH" [of s None w1]) (simp_all add: tk)
      then have d: "2352 dvd (length inp - 2352)"
        and kk: "k' = (k + 1) + int ((length inp - 2352) div 2352)"
        by (simp_all add: tk)
      from False have ge: "2352 \<le> length inp" by simp
      from d ge have "2352 dvd length inp"
        by (metis dvd_add_triv_right_iff le_add_diff_inverse2)
      moreover from ge have "length inp div 2352 = Suc ((length inp - 2352) div 2352)"
        by (simp add: le_div_geq)
      ultimately show ?thesis using kk by simp
    qed
  qed
qed

lemma main_loop_append:
  "main_loop t v pre k w = (None, k', w') \<Longrightarrow>
     main_loop t v (pre @ rest) k w = main_loop t v rest k' w'"
proof (induction t v pre k w rule: main_loop.induct)
  case (1 t v inp k w)
  show ?case
  proof (cases "inp = []")
    case True
    with "1.prems" show ?thesis by (simp add: main_loop_Nil)
  next
    case ne: False
    show ?thesis
    proof (cases "length inp < 2352")
      case True
      with ne "1.prems" show ?thesis by (simp add: main_loop_short)
    next
      case False
      then have len: "length (take 2352 inp) = 2352" by simp
      have split: "inp = take 2352 inp @ drop 2352 inp" by simp
      have tk: "take SECTOR_SIZE inp = take 2352 inp" "drop SECTOR_SIZE inp = drop 2352 inp"
        by (simp_all add: SECTOR_SIZE_def)
      from ne False have nonempty: "take SECTOR_SIZE inp \<noteq> []" by (simp add: tk)
      from "1.prems" obtain s where s: "Sector_init (take 2352 inp) = Inr s"
        by (subst (asm) split, subst (asm) main_loop_block [OF len])
          (auto split: sum.splits)
      from "1.prems" s obtain w1 where w1: "main_body t v k s w = (None, w1)"
        and rest: "main_loop t v (drop 2352 inp) (k + 1) w1 = (None, k', w')"
        by (subst (asm) split, subst (asm) main_loop_block [OF len])
          (auto split: prod.splits option.splits)
      have IH: "main_loop t v (drop SECTOR_SIZE inp @ rest) (k + 1) w1 = main_loop t v rest k' w'"
        using nonempty s w1 rest
        by (intro "1.IH" [of s None w1]) (simp_all add: tk)
      have "main_loop t v (inp @ rest) k w
              = main_loop t v (take 2352 inp @ (drop 2352 inp @ rest)) k w"
        by (simp only: append_assoc [symmetric] append_take_drop_id)
      also have "\<dots> = main_loop t v (drop 2352 inp @ rest) (k + 1) w1"
        by (simp add: main_loop_block [OF len] s w1)
      also have "\<dots> = main_loop t v rest k' w'"
        using IH by (simp add: tk)
      finally show ?thesis .
    qed
  qed
qed

lemma print_line_keeps [simp]:
  "dirs (print_line l w) = dirs w" "files (print_line l w) = files w"
  by (simp_all add: print_line_def)

lemma main_body_normal_D:
  assumes "main_body t v k s w = (None, w')"
  shows "\<exists>f c. file s = Some f \<and> channel s = Some c \<and>
           dirs w' = insert (os_path_join t [typename s, format_0x 2 f]) (dirs w) \<and>
           files w' = (files w)
             (os_path_join (os_path_join t [typename s, format_0x 2 f]) [format_0x 2 c] \<mapsto>
                (case files w (os_path_join (os_path_join t [typename s, format_0x 2 f])
                                 [format_0x 2 c]) of
                   None \<Rightarrow> [] | Some old \<Rightarrow> old) @ data s)"
proof -
  have "\<exists>w1. dirs w1 = dirs w \<and> files w1 = files w \<and>
          (case format_opt (format_0x 2) (file s) of
            Inl e \<Rightarrow> (Some e, w1)
          | Inr fh \<Rightarrow>
             let dirname = os_path_join t [typename s, fh] in
             (case format_opt (format_0x 2) (channel s) of
                Inl e \<Rightarrow> (Some e, w1)
              | Inr ch \<Rightarrow>
                 let w2 = makedirs dirname w1;
                     path = os_path_join dirname [ch]
                 in (None, append_file path (data s) w2))) = (None, w')"
  proof (cases v)
    case False
    with assms show ?thesis by (intro exI [of _ w]) (simp add: main_body_def)
  next
    case True
    with assms obtain l where l: "Sector_str s = Inr l"
      by (cases "Sector_str s") (simp_all add: main_body_def)
    with True assms show ?thesis
      by (intro exI [of _ "print_line (format_d 6 k @ CHR '' '' # l) w"])
        (simp add: main_body_def)
  qed
  then obtain w1 where w1: "dirs w1 = dirs w" "files w1 = files w"
    and fmt: "(case format_opt (format_0x 2) (file s) of
            Inl e \<Rightarrow> (Some e, w1)
          | Inr fh \<Rightarrow>
             let dirname = os_path_join t [typename s, fh] in
             (case format_opt (format_0x 2) (channel s) of
                Inl e \<Rightarrow> (Some e, w1)
              | Inr ch \<Rightarrow>
                 let w2 = makedirs dirname w1;
                     path = os_path_join dirname [ch]
                 in (None, append_file path (data s) w2))) = (None, w')"
    by blast
  from fmt obtain f where f: "file s = Some f"
    by (cases "file s") (auto simp: format_opt_def)
  from fmt f obtain c where c: "channel s = Some c"
    by (cases "channel s") (auto simp: format_opt_def Let_def)
  from fmt f c have "w' = append_file
      (os_path_join (os_path_join t [typename s, format_0x 2 f]) [format_0x 2 c]) (data s)
      (makedirs (os_path_join t [typename s, format_0x 2 f]) w1)"
    by (simp add: format_opt_def Let_def)
  with w1 f c show ?thesis
    by (simp add: append_file_def makedirs_def)
qed

lemma main_body_quiet:
  assumes "file s = Some f" and "channel s = Some c"
  shows "main_body t False k s w =
     (None, append_file
        (os_path_join (os_path_join t [typename s, format_0x 2 f]) [format_0x 2 c]) (data s)
        (makedirs (os_path_join t [typename s, format_0x 2 f]) w))"
  using assms by (simp add: main_body_def format_opt_def Let_def)

lemma Sector_str_mode01:
  assumes "mode s = 0 \<or> mode s = 1"
  shows "\<exists>l. Sector_str s = Inr l"
  using assms by (auto simp: Sector_str_def Let_def)

lemma main_body_unset:
  assumes "file s = None" and "mode s = 0 \<or> mode s = 1"
  shows "\<exists>w'. main_body t v k s w = (Some TypeError, w') \<and> dirs w' = dirs w \<and>
           files w' = files w"
proof (cases v)
  case False
  with assms(1) show ?thesis by (simp add: main_body_def format_opt_def)
next
  case True
  from Sector_str_mode01 [OF assms(2)] obtain l where "Sector_str s = Inr l" ..
  with True assms(1) show ?thesis by (simp add: main_body_def format_opt_def)
qed

lemma format_0x_examples: "format_0x 2 1 = ''01''" "format_0x 2 31 = ''1f''"
  by (simp_all add: format_0x_def zero_pad_def digit_char_def)

lemma example_sector:
  "\<exists>s. Sector_init (example_block [0x00, 0x02, 0x27, 2, 1, 0xff, 0x06, 0x0f]) = Inr s \<and>
       file s = Some 1 \<and> channel s = Some 31 \<and> type_video s = Some True \<and>
       type_audio s = Some True \<and>
       data s = slice 24 2072 (example_block [0x00, 0x02, 0x27, 2, 1, 0xff, 0x06, 0x0f])"
proof -
  let ?d = "example_block [0x00, 0x02, 0x27, 2, 1, 0xff, 0x06, 0x0f]"
  obtain s where s: "Sector_init ?d = Inr s"
    using Sector_init_succeeds [of ?d]
    by (auto simp: length_example_block startswith_example_block nth_example_block)
  have "?d ! 15 = 2" by (simp add: nth_example_block)
  note eq = Sector_init_mode2 [OF s this]
  have "file s = Some 1" by (subst eq) (simp add: nth_example_block)
  moreover have "channel s = Some 31" by (subst eq) (simp add: nth_example_block and_31_mod)
  moreover have "type_video s = Some True"
    by (subst eq) (simp add: nth_example_block bit_numeral_simps)
  moreover have "type_audio s = Some True"
    by (subst eq) (simp add: nth_example_block bit_numeral_simps)
  moreover have "data s = slice 24 2072 ?d"
    by (subst eq) (simp add: nth_example_block bit_numeral_simps fresh_def)
  ultimately show ?thesis using s by blast
qed

lemma typename_video: "type_video s = Some True \<Longrightarrow> typename s = ''video''"
  by (simp add: typename_def truthy_opt_def)

lemma example_path:
  "os_path_join ''out'' [''video'', ''01''] = ''out/video/01''"
  "os_path_join ''out/video/01'' [''1f''] = ''out/video/01/1f''"
  by simp_all

lemma example_run:
  "\<exists>w1. main (example_block [0x00, 0x02, 0x27, 2, 1, 0xff, 0x06, 0x0f]) ''out'' False empty_world
          = (None, 1, w1) \<and>
        dirs w1 = {''out'', ''out/video/01''} \<and>
        files w1 = (files empty_world)(''out/video/01/1f'' \<mapsto>
           slice 24 2072 (example_block [0x00, 0x02, 0x27, 2, 1, 0xff, 0x06, 0x0f]))"
proof -
  let ?d = "example_block [0x00, 0x02, 0x27, 2, 1, 0xff, 0x06, 0x0f]"
  from example_sector obtain s where s: "Sector_init ?d = Inr s"
    and f: "file s = Some 1" and c: "channel s = Some 31"
    and tv: "type_video s = Some True" and dat: "data s = slice 24 2072 ?d"
    by blast
  have len: "length ?d = 2352" by (simp add: length_example_block)
  let ?w1 = "append_file ''out/video/01/1f'' (data s)
               (makedirs ''out/video/01'' (makedirs ''out'' empty_world))"
  have body: "main_body ''out'' False 0 s (makedirs ''out'' empty_world) = (None, ?w1)"
    by (simp only: main_body_quiet [OF f c] typename_video [OF tv] format_0x_examples
        example_path)
  have "main ?d ''out'' False empty_world = (None, 1, ?w1)"
    using main_loop_block [OF len, of "''out''" False "[]" 0 "makedirs ''out'' empty_world"]
    by (simp add: main_def s body main_loop_Nil)
  moreover have "dirs ?w1 = {''out'', ''out/video/01''}"
    by (auto simp: append_file_def makedirs_def empty_world_def)
  moreover have "files ?w1 = (files empty_world)(''out/video/01/1f'' \<mapsto> slice 24 2072 ?d)"
    by (simp add: append_file_def makedirs_def empty_world_def dat)
  ultimately show ?thesis by blast
qed

subsection \<open>The type name of an output file\<close>

text \<open>
  C6. The type name the driver uses for a sector is "video" if \<open>type_video\<close> is set,
  else "audio" if \<open>type_audio\<close> is set, else "data" if \<open>type_data\<close> is set, else
  "untyped"; with several type bits set, video wins over audio and audio over data. For a
  parsed mode-2 block these are bits 1, 2 and 3 of byte 18, and the sector's data is
  appended to the file with that type name under the target directory.
\<close>

theorem typename_priority:
  "typename s =
     (if type_video s = Some True then ''video''
      else if type_audio s = Some True then ''audio''
      else if type_data s = Some True then ''data''
      else ''untyped'') \<and>
   (\<forall>d. Sector_init d = Inr s \<and> d ! 15 = 2 \<longrightarrow>
      typename s =
        (if bit (d ! 18) 1 then ''video''
         else if bit (d ! 18) 2 then ''audio''
         else if bit (d ! 18) 3 then ''data''
         else ''untyped'')) \<and>
   (\<forall>t v k w w'. main_body t v k s w = (None, w') \<longrightarrow>
      (\<exists>f c old. file s = Some f \<and> channel s = Some c \<and>
         dirs w' = insert (os_path_join t [typename s, format_0x 2 f]) (dirs w) \<and>
         files w' (os_path_join (os_path_join t [typename s, format_0x 2 f]) [format_0x 2 c])
           = Some (old @ data s)))"
proof (intro conjI allI impI)
  show "typename s =
     (if type_video s = Some True then ''video''
      else if type_audio s = Some True then ''audio''
      else if type_data s = Some True then ''data''
      else ''untyped'')"
    by (cases "type_video s"; cases "type_audio s"; cases "type_data s")
      (simp_all add: typename_def truthy_opt_def)
next
  fix d assume "Sector_init d = Inr s \<and> d ! 15 = 2"
  then have ok: "Sector_init d = Inr s" and m2: "d ! 15 = 2" by simp_all
  note eq = Sector_init_mode2 [OF ok m2]
  have "type_video s = Some (bit (d ! 18) 1)" by (subst eq) simp
  moreover have "type_audio s = Some (bit (d ! 18) 2)" by (subst eq) simp
  moreover have "type_data s = Some (bit (d ! 18) 3)" by (subst eq) simp
  ultimately show "typename s =
        (if bit (d ! 18) 1 then ''video''
         else if bit (d ! 18) 2 then ''audio''
         else if bit (d ! 18) 3 then ''data''
         else ''untyped'')"
    by (simp add: typename_def truthy_opt_def)
next
  fix t v k w w' assume "main_body t v k s w = (None, w')"
  from main_body_normal_D [OF this] obtain f c where
    "file s = Some f" "channel s = Some c"
    "dirs w' = insert (os_path_join t [typename s, format_0x 2 f]) (dirs w)"
    "files w' = (files w)
             (os_path_join (os_path_join t [typename s, format_0x 2 f]) [format_0x 2 c] \<mapsto>
                (case files w (os_path_join (os_path_join t [typename s, format_0x 2 f])
                                 [format_0x 2 c]) of
                   None \<Rightarrow> [] | Some old \<Rightarrow> old) @ data s)"
    by blast
  then show "\<exists>f c old. file s = Some f \<and> channel s = Some c \<and>
         dirs w' = insert (os_path_join t [typename s, format_0x 2 f]) (dirs w) \<and>
         files w' (os_path_join (os_path_join t [typename s, format_0x 2 f]) [format_0x 2 c])
           = Some (old @ data s)"
    by (intro exI [of _ f] exI [of _ c]) simp
qed

theorem typename_priority_witness:
  "\<exists>s w'. Sector_init (example_block [0x00, 0x02, 0x27, 2, 1, 0xff, 0x06, 0x0f]) = Inr s \<and>
       type_video s = Some True \<and> type_audio s = Some True \<and> typename s = ''video'' \<and>
       main_body ''out'' False 0 s empty_world = (None, w') \<and>
       dirs w' = {''out/video/01''} \<and>
       files w' ''out/video/01/1f'' = Some (data s)"
proof -
  let ?d = "example_block [0x00, 0x02, 0x27, 2, 1, 0xff, 0x06, 0x0f]"
  from example_sector obtain s where s: "Sector_init ?d = Inr s"
    and f: "file s = Some 1" and c: "channel s = Some 31"
    and tv: "type_video s = Some True" and ta: "type_audio s = Some True"
    by blast
  have m2: "?d ! 15 = 2" by (simp add: nth_example_block)
  note inst = typename_priority [of s]
  from inst s m2 have "typename s =
        (if bit (?d ! 18) 1 then ''video''
         else if bit (?d ! 18) 2 then ''audio''
         else if bit (?d ! 18) 3 then ''data''
         else ''untyped'')"
    by blast
  then have tn: "typename s = ''video''"
    by (simp add: nth_example_block bit_numeral_simps)
  obtain w' where body: "main_body ''out'' False 0 s empty_world = (None, w')"
    by (simp add: main_body_quiet [OF f c])
  with inst obtain f' c' old where
    "file s = Some f'" "channel s = Some c'"
    "dirs w' = insert (os_path_join ''out'' [typename s, format_0x 2 f']) (dirs empty_world)"
    "files w' (os_path_join (os_path_join ''out'' [typename s, format_0x 2 f']) [format_0x 2 c'])
           = Some (old @ data s)"
    by blast
  with f c tn have d: "dirs w' = {''out/video/01''}"
    and fl: "files w' ''out/video/01/1f'' = Some (old @ data s)"
    by (simp_all add: format_0x_examples empty_world_def)
  from body have "files w' ''out/video/01/1f'' = Some (data s)"
    by (auto simp: main_body_quiet [OF f c] tn format_0x_examples append_file_def
        makedirs_def empty_world_def)
  with s tv ta tn body d show ?thesis by blast
qed

subsection \<open>End of input\<close>

text \<open>
  C8. The loop ends without an exception only at a read that returns no bytes: on an empty
  input \<open>main\<close> processes no sector, asks only for the target directory and writes
  no file; whenever the loop ends normally the input was a whole number of 2352-byte
  blocks and each was processed; and when the input is such a sequence of blocks that the
  driver gets through, followed by between 1 and 2351 bytes, the run ends with the length
  error after those blocks, having written nothing for the partial one.
\<close>

theorem end_of_input:
  "main [] t v w = (None, 0, makedirs t w) \<and>
   dirs (makedirs t w) = insert t (dirs w) \<and> files (makedirs t w) = files w \<and>
   (\<forall>inp k' w'. main inp t v w = (None, k', w') \<longrightarrow>
      2352 dvd length inp \<and> k' = int (length inp div 2352)) \<and>
   (\<forall>pre part k' w'.
      main pre t v w = (None, k', w') \<and> 0 < length part \<and> length part < 2352 \<longrightarrow>
      main (pre @ part) t v w = (Some BadLength, k', w'))"
proof (intro conjI allI impI)
  show "main [] t v w = (None, 0, makedirs t w)"
    by (simp add: main_def main_loop_Nil)
  show "dirs (makedirs t w) = insert t (dirs w)" "files (makedirs t w) = files w"
    by (simp_all add: makedirs_def)
next
  fix inp k' w' assume "main inp t v w = (None, k', w')"
  then have "main_loop t v inp 0 (makedirs t w) = (None, k', w')"
    by (simp add: main_def)
  from main_loop_normal_D [OF this]
  show "2352 dvd length inp" "k' = int (length inp div 2352)"
    by simp_all
next
  fix pre part :: bytes and k' w'
  assume a: "main pre t v w = (None, k', w') \<and> 0 < length part \<and> length part < 2352"
  then have "main_loop t v pre 0 (makedirs t w) = (None, k', w')"
    by (simp add: main_def)
  from main_loop_append [OF this, of part] a
  show "main (pre @ part) t v w = (Some BadLength, k', w')"
    by (simp add: main_def main_loop_short)
qed

theorem end_of_input_witness:
  "\<exists>w1. main (example_block [0x00, 0x02, 0x27, 2, 1, 0xff, 0x06, 0x0f]) ''out'' False empty_world
          = (None, 1, w1) \<and>
        2352 dvd length (example_block [0x00, 0x02, 0x27, 2, 1, 0xff, 0x06, 0x0f]) \<and>
        main (example_block [0x00, 0x02, 0x27, 2, 1, 0xff, 0x06, 0x0f] @ [1, 2, 3])
          ''out'' False empty_world = (Some BadLength, 1, w1)"
proof -
  let ?d = "example_block [0x00, 0x02, 0x27, 2, 1, 0xff, 0x06, 0x0f]"
  from example_run obtain w1 where run: "main ?d ''out'' False empty_world = (None, 1, w1)"
    by blast
  note inst = end_of_input [of "''out''" False empty_world]
  from inst run have "2352 dvd length ?d" by blast
  moreover have "0 < length [1, 2, 3 :: byte] \<and> length [1, 2, 3 :: byte] < 2352" by simp
  with inst run have "main (?d @ [1, 2, 3]) ''out'' False empty_world = (Some BadLength, 1, w1)"
    by blast
  ultimately show ?thesis using run by blast
qed

subsection \<open>Sectors of mode 0 and 1 in the driver\<close>

text \<open>
  C9. A sector of mode 0 or 1 has neither \<open>file\<close> nor \<open>channel\<close>, and the driver
  formats both for every sector: on such a sector the loop body raises \<open>TypeError\<close>
  without creating a directory or writing a file. So for every input in which an accepted
  block of mode 0 or 1 follows blocks the driver got through, the run ends with
  \<open>TypeError\<close> at that block, with the directories and files as they were before it.
\<close>

theorem mode01_fails_in_driver:
  assumes "main pre t v w = (None, k', w')"
    and "length blk = 2352" and "startswith blk SYNC" and "blk ! 15 = 0 \<or> blk ! 15 = 1"
  shows "\<exists>s w''. Sector_init blk = Inr s \<and> file s = None \<and> channel s = None \<and>
           main_body t v k' s w' = (Some TypeError, w'') \<and>
           main (pre @ blk @ rest) t v w = (Some TypeError, k', w'') \<and>
           dirs w'' = dirs w' \<and> files w'' = files w'"
proof -
  from assms(4) have "uint (blk ! 15) \<in> {0, 1, 2}" by auto
  from Sector_init_succeeds [OF assms(2,3) this]
  obtain s where s: "Sector_init blk = Inr s" ..
  have mo: "mode s = uint (blk ! 15)" by (rule Sector_init_address [OF s])
  with assms(4) have m01: "mode s = 0 \<or> mode s = 1" by auto
  have unset: "file s = None \<and> channel s = None"
  proof (rule disjE [OF assms(4)])
    assume m: "blk ! 15 = 0"
    show ?thesis by (subst (1 2) Sector_init_mode0 [OF s m]) (simp add: fresh_def)
  next
    assume m: "blk ! 15 = 1"
    show ?thesis by (subst (1 2) Sector_init_mode1 [OF s m]) (simp add: fresh_def)
  qed
  then have "file s = None" ..
  from main_body_unset [OF this m01, of t v k' w']
  obtain w'' where body: "main_body t v k' s w' = (Some TypeError, w'')"
    and keep: "dirs w'' = dirs w'" "files w'' = files w'"
    by blast
  from assms(1) have "main_loop t v pre 0 (makedirs t w) = (None, k', w')"
    by (simp add: main_def)
  from main_loop_append [OF this, of "blk @ rest"]
  have "main (pre @ blk @ rest) t v w = main_loop t v (blk @ rest) k' w'"
    by (simp add: main_def)
  also have "\<dots> = (Some TypeError, k', w'')"
    by (simp add: main_loop_block [OF assms(2)] s body)
  finally show ?thesis using s unset body keep by blast
qed

theorem mode01_fails_in_driver_witness:
  "\<exists>w1 w2. main (example_block [0x00, 0x02, 0x27, 2, 1, 0xff, 0x06, 0x0f]) ''out'' False empty_world
          = (None, 1, w1) \<and>
     length (example_block [0x12, 0x34, 0x56, 1, 7, 7, 7, 7]) = 2352 \<and>
     startswith (example_block [0x12, 0x34, 0x56, 1, 7, 7, 7, 7]) SYNC \<and>
     example_block [0x12, 0x34, 0x56, 1, 7, 7, 7, 7] ! 15 = 1 \<and>
     main (example_block [0x00, 0x02, 0x27, 2, 1, 0xff, 0x06, 0x0f]
            @ example_block [0x12, 0x34, 0x56, 1, 7, 7, 7, 7]
            @ example_block [0x00, 0x02, 0x29, 2, 1, 0xff, 0x06, 0x0f])
         ''out'' False empty_world = (Some TypeError, 1, w2) \<and>
     dirs w2 = dirs w1 \<and> files w2 = files w1"
proof -
  let ?d = "example_block [0x00, 0x02, 0x27, 2, 1, 0xff, 0x06, 0x0f]"
  let ?e = "example_block [0x12, 0x34, 0x56, 1, 7, 7, 7, 7]"
  let ?r = "example_block [0x00, 0x02, 0x29, 2, 1, 0xff, 0x06, 0x0f]"
  from example_run obtain w1 where run: "main ?d ''out'' False empty_world = (None, 1, w1)"
    by blast
  have len: "length ?e = 2352" by (simp add: length_example_block)
  have sync: "startswith ?e SYNC" by (rule startswith_example_block)
  have m1: "?e ! 15 = 1" by (simp add: nth_example_block)
  then have m01: "?e ! 15 = 0 \<or> ?e ! 15 = 1" ..
  from mode01_fails_in_driver [OF run len sync m01, of ?r]
  obtain w2 where "main (?d @ ?e @ ?r) ''out'' False empty_world = (Some TypeError, 1, w2)"
    "dirs w2 = dirs w1" "files w2 = files w1"
    by blast
  with run len sync m1 show ?thesis by blast
qed

end
